theory Spec2Isabelle
  imports Complex_Main
begin

section \<open>NBA statistics analyzer: the advanced metrics calculator and the player search\<close>

text \<open>
  A shallow embedding of \<^verbatim>\<open>src/nba_stats.py\<close>, class \<^verbatim>\<open>NBAStatsAnalyzer\<close>.

  Python dictionaries are maps from their string keys. The statistics of a record are the
  numbers of the data model; Python's floats are idealised as \<^typ>\<open>real\<close>, so \<^verbatim>\<open>/\<close> is exact
  division and the literal \<^verbatim>\<open>0.44\<close> is the rational 44/100. Exceptions are values: a function
  that can raise returns \<open>exception + 'a\<close>, with \<open>Inl\<close> the exception raised.
\<close>

subsection \<open>Data\<close>

text \<open>
  The two exception classes that the modelled methods raise themselves or let through:
  the generic \<^verbatim>\<open>Exception(message)\<close> and the \<^verbatim>\<open>KeyError(key)\<close> of a dictionary read.
\<close>

datatype exception = Exception string | KeyError string

text \<open>\<^verbatim>\<open>type(e).__name__\<close>: the class a caller's \<^verbatim>\<open>except\<close> clause selects on.\<close>

fun exception_class :: "exception \<Rightarrow> string" where
  "exception_class (Exception msg) = ''Exception''"
| "exception_class (KeyError k) = ''KeyError''"

text \<open>The fields that \<^verbatim>\<open>__init__\<close> sets on \<^verbatim>\<open>self\<close>.\<close>

record analyzer =
  base_url :: string
  headers :: "(string \<times> string) list"
  current_season :: int

text \<open>\<^verbatim>\<open>__init__(self, api_key)\<close>; the year of \<^verbatim>\<open>datetime.now()\<close> is the second argument.\<close>

definition init :: "string \<Rightarrow> int \<Rightarrow> analyzer" where
  "init api_key now_year =
     \<lparr>base_url = ''https://www.balldontlie.io/api/v1'',
      headers = [(''Authorization'', ''Bearer '' @ api_key)],
      current_season = now_year\<rparr>"

type_synonym stats = "string \<rightharpoonup> real"

subsection \<open>Raising and sequencing\<close>

text \<open>Sequencing of statements that may raise: the first exception ends the block.\<close>

fun bind_exc :: "exception + 'a \<Rightarrow> ('a \<Rightarrow> exception + 'b) \<Rightarrow> exception + 'b" where
  "bind_exc (Inl e) f = Inl e"
| "bind_exc (Inr x) f = f x"

text \<open>\<^verbatim>\<open>d[k]\<close>: a missing key raises \<^verbatim>\<open>KeyError(k)\<close>.\<close>

definition getitem :: "(string \<rightharpoonup> 'v) \<Rightarrow> string \<Rightarrow> exception + 'v" where
  "getitem d k = (case d k of None \<Rightarrow> Inl (KeyError k) | Some v \<Rightarrow> Inr v)"

text \<open>
  \<^verbatim>\<open>str(e)\<close> for \<^verbatim>\<open>e = KeyError(k)\<close> is \<^verbatim>\<open>repr(k)\<close>: the key between single quotes, for a
  key without quotes, backslashes or unprintable characters (every key read below is one).
\<close>

definition str_KeyError :: "string \<Rightarrow> string" where
  "str_KeyError k = [CHR 0x27] @ k @ [CHR 0x27]"

subsection \<open>The advanced metrics calculator\<close>

text \<open>
  The four blocks of \<^verbatim>\<open>calculate_advanced_stats\<close>, each with the reads of
  \<^verbatim>\<open>basic_stats\<close> in the order Python evaluates them. \<^verbatim>\<open>and\<close> is short-circuit:
  \<^verbatim>\<open>basic_stats['fta']\<close> in the first condition is read only when \<^verbatim>\<open>basic_stats['fga'] > 0\<close>.
\<close>

definition ts_pct :: "stats \<Rightarrow> exception + real" where
  "ts_pct basic_stats =
     bind_exc (getitem basic_stats ''fga'') (\<lambda>fga.
     bind_exc (if fga > 0
               then bind_exc (getitem basic_stats ''fta'') (\<lambda>fta. Inr (fta > 0))
               else Inr False) (\<lambda>cond.
     if cond
     then bind_exc (getitem basic_stats ''pts'') (\<lambda>pts.
          bind_exc (getitem basic_stats ''fga'') (\<lambda>fga.
          bind_exc (getitem basic_stats ''fta'') (\<lambda>fta.
          Inr ((pts / (2 * (fga + 0.44 * fta))) * 100))))
     else Inr 0))"

definition usage_rate :: "stats \<Rightarrow> exception + real" where
  "usage_rate basic_stats =
     bind_exc (getitem basic_stats ''min'') (\<lambda>mins.
     if mins > 0
     then bind_exc (getitem basic_stats ''fga'') (\<lambda>fga.
          bind_exc (getitem basic_stats ''fta'') (\<lambda>fta.
          bind_exc (getitem basic_stats ''turnover'') (\<lambda>turnover.
          bind_exc (getitem basic_stats ''min'') (\<lambda>mins.
          Inr (((fga + 0.44 * fta + turnover) / mins) * 100)))))
     else Inr 0)"

definition ast_to_ratio :: "stats \<Rightarrow> exception + real" where
  "ast_to_ratio basic_stats =
     bind_exc (getitem basic_stats ''turnover'') (\<lambda>turnover.
     if turnover > 0
     then bind_exc (getitem basic_stats ''ast'') (\<lambda>ast.
          bind_exc (getitem basic_stats ''turnover'') (\<lambda>turnover.
          Inr (ast / turnover)))
     else bind_exc (getitem basic_stats ''ast'') (\<lambda>ast. Inr ast))"

definition pts_per_shot :: "stats \<Rightarrow> exception + real" where
  "pts_per_shot basic_stats =
     bind_exc (getitem basic_stats ''fga'') (\<lambda>fga.
     if fga > 0
     then bind_exc (getitem basic_stats ''pts'') (\<lambda>pts.
          bind_exc (getitem basic_stats ''fga'') (\<lambda>fga.
          Inr (pts / fga)))
     else Inr 0)"

text \<open>
  The body of the \<^verbatim>\<open>try\<close>: \<^verbatim>\<open>advanced_stats\<close> starts empty and gets one key per block,
  in the order of the source; the first read that raises ends the body.
\<close>

definition calculate_body :: "stats \<Rightarrow> exception + stats" where
  "calculate_body basic_stats =
     bind_exc (ts_pct basic_stats) (\<lambda>ts.
     bind_exc (usage_rate basic_stats) (\<lambda>ur.
     bind_exc (ast_to_ratio basic_stats) (\<lambda>atr.
     bind_exc (pts_per_shot basic_stats) (\<lambda>pps.
     Inr (Map.empty(''ts_pct'' \<mapsto> ts, ''usage_rate'' \<mapsto> ur,
                    ''ast_to_ratio'' \<mapsto> atr, ''pts_per_shot'' \<mapsto> pps))))))"

text \<open>
  \<^verbatim>\<open>calculate_advanced_stats(self, basic_stats)\<close>: \<^verbatim>\<open>except KeyError as e\<close> turns the
  \<^verbatim>\<open>KeyError\<close> of the body into \<^verbatim>\<open>Exception(f"Missing required statistics: {str(e)}")\<close>;
  any other exception passes.
\<close>

definition calculate_advanced_stats :: "analyzer \<Rightarrow> stats \<Rightarrow> exception + stats" where
  "calculate_advanced_stats self basic_stats =
     (case calculate_body basic_stats of
        Inl (KeyError k) \<Rightarrow> Inl (Exception (''Missing required statistics: '' @ str_KeyError k))
      | Inl e \<Rightarrow> Inl e
      | Inr advanced_stats \<Rightarrow> Inr advanced_stats)"

text \<open>
  The keys of a season-average record: the ones \<^verbatim>\<open>display_player_stats\<close> and
  \<^verbatim>\<open>calculate_advanced_stats\<close> read, which are the fields of the data model.
\<close>

definition basic_stats_fields :: "string list" where
  "basic_stats_fields =
     [''games_played'', ''min'', ''pts'', ''reb'', ''ast'', ''stl'', ''blk'', ''turnover'',
      ''fga'', ''fta'', ''fg_pct'', ''fg3_pct'', ''ft_pct'']"

text \<open>A record of the data model: every field is present.\<close>

definition BasicStats :: "stats \<Rightarrow> bool" where
  "BasicStats basic_stats = list_all (\<lambda>k. basic_stats k \<noteq> None) basic_stats_fields"

text \<open>A well-formed record: every field is present and its value is not negative.\<close>

definition well_formed :: "stats \<Rightarrow> bool" where
  "well_formed basic_stats =
     list_all (\<lambda>k. case basic_stats k of None \<Rightarrow> False | Some v \<Rightarrow> 0 \<le> v) basic_stats_fields"

text \<open>The keys that occur in a read \<^verbatim>\<open>basic_stats[...]\<close> of \<^verbatim>\<open>calculate_advanced_stats\<close>.\<close>

definition read_fields :: "string list" where
  "read_fields = [''fga'', ''fta'', ''pts'', ''min'', ''turnover'', ''ast'']"

text \<open>The value of a key is present and positive.\<close>

definition positive :: "stats \<Rightarrow> string \<Rightarrow> bool" where
  "positive basic_stats k = (case basic_stats k of None \<Rightarrow> False | Some v \<Rightarrow> 0 < v)"

subsection \<open>The player search\<close>

text \<open>
  \<^verbatim>\<open>str(n)\<close> of an integer, as the f-string of the status code formats it.
\<close>

fun str_nat :: "nat \<Rightarrow> string" where
  "str_nat n =
     (if n < 10 then [''0123456789'' ! n]
      else str_nat (n div 10) @ [''0123456789'' ! (n mod 10)])"

definition str_int :: "int \<Rightarrow> string" where
  "str_int i = (if i < 0 then ''-'' @ str_nat (nat (- i)) else str_nat (nat i))"

text \<open>
  What \<^verbatim>\<open>requests.get\<close> gives: a response, with its status code and its decoded JSON
  body (an object, by its keys), or a \<^verbatim>\<open>requests.exceptions.RequestException\<close> with its
  \<^verbatim>\<open>str\<close>. The network is a parameter of the model: a function from the URL, the query
  parameters and the headers to this outcome.
\<close>

record 'j response =
  status_code :: int
  json :: "string \<rightharpoonup> 'j"

datatype 'j http_outcome = Response "'j response" | RequestException string

type_synonym 'j requests_get =
  "string \<Rightarrow> (string \<times> string) list \<Rightarrow> (string \<times> string) list \<Rightarrow> 'j http_outcome"

text \<open>
  \<^verbatim>\<open>search_player(self, player_name)\<close>. The \<^verbatim>\<open>except\<close> clause catches
  \<^verbatim>\<open>RequestException\<close> only: the \<^verbatim>\<open>Exception\<close>s raised in the \<^verbatim>\<open>try\<close> and the
  \<^verbatim>\<open>KeyError\<close> of \<^verbatim>\<open>["data"]\<close> pass through it.
\<close>

definition search_player :: "'j requests_get \<Rightarrow> analyzer \<Rightarrow> string \<Rightarrow> exception + 'j" where
  "search_player requests_get self player_name =
     (let url = base_url self @ ''/players'';
          params = [(''search'', player_name)]
      in case requests_get url params (headers self) of
           Response response \<Rightarrow>
             if status_code response = 200 then getitem (json response) ''data''
             else if status_code response = 401
               then Inl (Exception ''Invalid API key. Please check your API key.'')
             else if status_code response = 429
               then Inl (Exception ''Rate limit exceeded. Please try again later.'')
             else Inl (Exception (''API request failed with status code ''
                                   @ str_int (status_code response)))
         | RequestException e \<Rightarrow> Inl (Exception (''API request failed: '' @ e)))"

text \<open>The class of the exception a call raised, if it raised one.\<close>

definition raised_class :: "exception + 'a \<Rightarrow> string option" where
  "raised_class r = (case r of Inl e \<Rightarrow> Some (exception_class e) | Inr v \<Rightarrow> None)"

subsection \<open>Example records\<close>

text \<open>A full season-average record, one of a player who never took the court, and a record
  that holds nothing but the six keys the calculator reads.\<close>

definition season_example :: stats where
  "season_example =
     map_of [(''games_played'', 70), (''min'', 34.5), (''pts'', 30), (''reb'', 7),
             (''ast'', 5), (''stl'', 1.2), (''blk'', 0.5), (''turnover'', 2),
             (''fga'', 20), (''fta'', 10), (''fg_pct'', 0.5), (''fg3_pct'', 0.4),
             (''ft_pct'', 0.9)]"

definition idle_example :: stats where
  "idle_example =
     map_of [(''games_played'', 3), (''min'', 0), (''pts'', 0), (''reb'', 0),
             (''ast'', 4), (''stl'', 0), (''blk'', 0), (''turnover'', 0),
             (''fga'', 0), (''fta'', 0), (''fg_pct'', 0), (''fg3_pct'', 0),
             (''ft_pct'', 0)]"

definition minimal_example :: stats where
  "minimal_example =
     map_of [(''fga'', 20), (''fta'', 10), (''pts'', 30), (''min'', 34.5),
             (''turnover'', 2), (''ast'', 5)]"

text \<open>A record of a player without a shot attempt, from which \<open>pts\<close> is absent, and a
  record of a scorer from which \<open>pts\<close> is absent.\<close>

definition no_points_example :: stats where
  "no_points_example =
     map_of [(''games_played'', 3), (''min'', 0), (''reb'', 0),
             (''ast'', 4), (''stl'', 0), (''blk'', 0), (''turnover'', 0),
             (''fga'', 0), (''fta'', 0), (''fg_pct'', 0), (''fg3_pct'', 0),
             (''ft_pct'', 0)]"

definition scorer_no_points_example :: stats where
  "scorer_no_points_example =
     map_of [(''games_played'', 70), (''min'', 34.5), (''reb'', 7),
             (''ast'', 5), (''stl'', 1.2), (''blk'', 0.5), (''turnover'', 2),
             (''fga'', 20), (''fta'', 10), (''fg_pct'', 0.5), (''fg3_pct'', 0.4),
             (''ft_pct'', 0.9)]"

text \<open>A network that gives every request the same outcome.\<close>

definition answers :: "'j http_outcome \<Rightarrow> 'j requests_get" where
  "answers outcome url params hdrs = outcome"

subsection \<open>The call as a step on the program state\<close>

text \<open>
  What a call of the method can reach: the analyzer object \<^verbatim>\<open>self\<close> and the dictionaries
  alive, each at its address, which is its index in the list. \<^verbatim>\<open>{}\<close> makes a new
  dictionary at the next index.
\<close>

record state =
  self_obj :: analyzer
  dicts :: "stats list"

text \<open>The dictionary at an address. A Python reference is never dangling; the model
  reads an empty dictionary at an address that is not alive.\<close>

definition deref :: "state \<Rightarrow> nat \<Rightarrow> stats" where
  "deref s a = (if a < length (dicts s) then dicts s ! a else Map.empty)"

definition new_dict :: "state \<Rightarrow> nat \<times> state" where
  "new_dict s = (length (dicts s), s\<lparr>dicts := dicts s @ [Map.empty]\<rparr>)"

text \<open>\<^verbatim>\<open>d[k] = v\<close> on the dictionary at address \<open>a\<close>.\<close>

definition setitem :: "nat \<Rightarrow> string \<Rightarrow> real \<Rightarrow> state \<Rightarrow> state" where
  "setitem a k v s = s\<lparr>dicts := (dicts s)[a := (deref s a)(k \<mapsto> v)]\<rparr>"

text \<open>
  One \<^verbatim>\<open>if\<close>/\<^verbatim>\<open>else\<close> block of the method. Both branches assign the same key of
  \<^verbatim>\<open>advanced_stats\<close>: the block reads \<^verbatim>\<open>basic_stats\<close> in the current state, which
  may raise, and then stores the value.
\<close>

definition assign_block ::
  "nat \<Rightarrow> string \<Rightarrow> (stats \<Rightarrow> exception + real) \<Rightarrow> nat \<Rightarrow> state \<Rightarrow> (exception + unit) \<times> state" where
  "assign_block advanced_stats key block basic_stats s =
     (case block (deref s basic_stats) of
        Inl e \<Rightarrow> (Inl e, s)
      | Inr v \<Rightarrow> (Inr (), setitem advanced_stats key v s))"

text \<open>The next statement runs in the state the previous one left, unless that one raised.\<close>

fun then_st ::
  "(exception + 'a) \<times> state \<Rightarrow> ('a \<Rightarrow> state \<Rightarrow> (exception + 'b) \<times> state)
     \<Rightarrow> (exception + 'b) \<times> state" where
  "then_st (Inl e, s) f = (Inl e, s)"
| "then_st (Inr x, s) f = f x s"

text \<open>
  The method with its effects: \<open>basic_stats\<close> is the address of the argument, the result is
  the address of the new dictionary or the exception raised, together with the state after
  the call.
\<close>

definition calculate_advanced_stats_call :: "nat \<Rightarrow> state \<Rightarrow> (exception + nat) \<times> state" where
  "calculate_advanced_stats_call basic_stats s =
     (case new_dict s of (advanced_stats, s1) \<Rightarrow>
        (case
           then_st (assign_block advanced_stats ''ts_pct'' ts_pct basic_stats s1) (\<lambda>u s2.
           then_st (assign_block advanced_stats ''usage_rate'' usage_rate basic_stats s2) (\<lambda>u s3.
           then_st (assign_block advanced_stats ''ast_to_ratio'' ast_to_ratio basic_stats s3) (\<lambda>u s4.
           then_st (assign_block advanced_stats ''pts_per_shot'' pts_per_shot basic_stats s4) (\<lambda>u s5.
           (Inr advanced_stats, s5)))))
         of
           (Inl (KeyError k), s') \<Rightarrow>
             (Inl (Exception (''Missing required statistics: '' @ str_KeyError k)), s')
         | (Inl e, s') \<Rightarrow> (Inl e, s')
         | (Inr a, s') \<Rightarrow> (Inr a, s')))"

text \<open>What the caller gets: the exception, or the contents of the dictionary returned.\<close>

definition outcome :: "(exception + nat) \<times> state \<Rightarrow> exception + stats" where
  "outcome r = (case fst r of Inl e \<Rightarrow> Inl e | Inr a \<Rightarrow> Inr (deref (snd r) a))"

text \<open>Two states for the examples: different analyzers, different dictionaries alive.\<close>

definition first_state :: state where
  "first_state = \<lparr>self_obj = init ''key'' 2024, dicts = [season_example]\<rparr>"

definition second_state :: state where
  "second_state = \<lparr>self_obj = init ''other'' 1999, dicts = [idle_example, season_example]\<rparr>"

section \<open>Properties\<close>

subsection \<open>Reads\<close>

lemma getitem_Some: "d k = Some v \<Longrightarrow> getitem d k = Inr v"
  by (simp add: getitem_def)

lemma getitem_None: "d k = None \<Longrightarrow> getitem d k = Inl (KeyError k)"
  by (simp add: getitem_def)

lemma ts_pct_Some:
  assumes "bs ''fga'' = Some fga" and "bs ''fta'' = Some fta" and "bs ''pts'' = Some pts"
  shows "ts_pct bs = Inr (if 0 < fga \<and> 0 < fta then pts / (2 * (fga + 0.44 * fta)) * 100 else 0)"
  using assms by (simp add: ts_pct_def getitem_Some)

lemma usage_rate_Some:
  assumes "bs ''fga'' = Some fga" and "bs ''fta'' = Some fta"
    and "bs ''turnover'' = Some tov" and "bs ''min'' = Some mins"
  shows "usage_rate bs = Inr (if 0 < mins then (fga + 0.44 * fta + tov) / mins * 100 else 0)"
  using assms by (simp add: usage_rate_def getitem_Some)

lemma ast_to_ratio_Some:
  assumes "bs ''turnover'' = Some tov" and "bs ''ast'' = Some ast"
  shows "ast_to_ratio bs = Inr (if 0 < tov then ast / tov else ast)"
  using assms by (simp add: ast_to_ratio_def getitem_Some)

lemma pts_per_shot_Some:
  assumes "bs ''fga'' = Some fga" and "bs ''pts'' = Some pts"
  shows "pts_per_shot bs = Inr (if 0 < fga then pts / fga else 0)"
  using assms by (simp add: pts_per_shot_def getitem_Some)

text \<open>With the six keys present the call returns, and this is the dictionary it returns.\<close>

lemma calculate_advanced_stats_Some:
  assumes "bs ''fga'' = Some fga" and "bs ''fta'' = Some fta" and "bs ''pts'' = Some pts"
    and "bs ''min'' = Some mins" and "bs ''turnover'' = Some tov" and "bs ''ast'' = Some ast"
  shows "calculate_advanced_stats self bs =
           Inr (Map.empty
             (''ts_pct'' \<mapsto> (if 0 < fga \<and> 0 < fta then pts / (2 * (fga + 0.44 * fta)) * 100 else 0),
              ''usage_rate'' \<mapsto> (if 0 < mins then (fga + 0.44 * fta + tov) / mins * 100 else 0),
              ''ast_to_ratio'' \<mapsto> (if 0 < tov then ast / tov else ast),
              ''pts_per_shot'' \<mapsto> (if 0 < fga then pts / fga else 0)))"
  unfolding calculate_advanced_stats_def calculate_body_def
  by (simp add: ts_pct_Some [OF assms(1,2,3)] usage_rate_Some [OF assms(1,2,5,4)]
      ast_to_ratio_Some [OF assms(5,6)] pts_per_shot_Some [OF assms(1,3)])

lemma BasicStats_fields:
  assumes "BasicStats bs"
  shows "\<exists>fga fta pts mins tov ast.
           bs ''fga'' = Some fga \<and> bs ''fta'' = Some fta \<and> bs ''pts'' = Some pts \<and>
           bs ''min'' = Some mins \<and> bs ''turnover'' = Some tov \<and> bs ''ast'' = Some ast"
  using assms by (auto simp: BasicStats_def basic_stats_fields_def)

lemma well_formed_fields:
  assumes "well_formed bs"
  shows "\<exists>fga fta pts mins tov ast.
           bs ''fga'' = Some fga \<and> bs ''fta'' = Some fta \<and> bs ''pts'' = Some pts \<and>
           bs ''min'' = Some mins \<and> bs ''turnover'' = Some tov \<and> bs ''ast'' = Some ast \<and>
           0 \<le> fga \<and> 0 \<le> pts \<and> 0 \<le> tov \<and> 0 \<le> ast"
  using assms by (auto simp: well_formed_def basic_stats_fields_def split: option.splits)

lemma BasicStats_season_example: "BasicStats season_example"
  by (simp add: BasicStats_def basic_stats_fields_def season_example_def del: not_None_eq)

lemma BasicStats_idle_example: "BasicStats idle_example"
  by (simp add: BasicStats_def basic_stats_fields_def idle_example_def del: not_None_eq)

text \<open>Keys outside the six can be dropped from the record: no read sees the difference.\<close>

lemma getitem_restrict:
  "k \<in> set read_fields \<Longrightarrow> getitem (d |` set read_fields) k = getitem d k"
  by (simp add: getitem_def)

lemma read_fields_mem:
  "''fga'' \<in> set read_fields" "''fta'' \<in> set read_fields" "''pts'' \<in> set read_fields"
  "''min'' \<in> set read_fields" "''turnover'' \<in> set read_fields" "''ast'' \<in> set read_fields"
  by (simp_all add: read_fields_def)

lemma calculate_body_restrict:
  "calculate_body (bs |` set read_fields) = calculate_body bs"
  by (simp add: calculate_body_def ts_pct_def usage_rate_def ast_to_ratio_def pts_per_shot_def
      getitem_restrict read_fields_mem cong: if_cong)

lemma ts_example_value:
  "(30::real) / (2 * (20 + 0.44 * 10)) * 100 = 30 / (2 * (20 + 4.4)) * 100"
  "\<bar>(30::real) / (2 * (20 + 4.4)) * 100 - 61.48\<bar> < 0.005"
  by simp_all

subsection \<open>The four formulas and their guards\<close>

text \<open>
  C2. For every BasicStats record, the call returns and \<open>ts_pct\<close> of the result is
  \<open>points / (2 * (fga + 0.44 * fta)) * 100\<close> when \<open>fga > 0\<close> and \<open>fta > 0\<close>, and 0
  otherwise; so it is 0 whenever \<open>fga\<close> is 0, whatever the other fields hold.
\<close>

theorem true_shooting_pct:
  assumes "BasicStats bs"
    and "bs ''pts'' = Some points" and "bs ''fga'' = Some fga" and "bs ''fta'' = Some fta"
  shows "\<exists>adv. calculate_advanced_stats self bs = Inr adv \<and>
           adv ''ts_pct'' =
             Some (if 0 < fga \<and> 0 < fta then points / (2 * (fga + 0.44 * fta)) * 100 else 0)"
proof -
  from BasicStats_fields [OF assms(1)] assms(2-4)
  obtain mins tov ast where
    "bs ''min'' = Some mins" and "bs ''turnover'' = Some tov" and "bs ''ast'' = Some ast"
    by auto
  with assms(2-4) show ?thesis
    by (simp add: calculate_advanced_stats_Some [of bs fga fta points mins tov ast])
qed

theorem true_shooting_pct_witness:
  "BasicStats season_example \<and>
   (\<exists>adv. calculate_advanced_stats (init ''key'' 2024) season_example = Inr adv \<and>
      adv ''ts_pct'' = Some (30 / (2 * (20 + 0.44 * 10)) * 100))"
proof -
  have "season_example ''pts'' = Some 30" and "season_example ''fga'' = Some 20"
    and "season_example ''fta'' = Some 10"
    by (simp_all add: season_example_def)
  from true_shooting_pct [OF BasicStats_season_example this, of "init ''key'' 2024"]
    BasicStats_season_example
  show ?thesis by simp
qed

text \<open>
  C3. For every BasicStats record, the call returns and \<open>ast_to_ratio\<close> of the result is
  \<open>assists / turnovers\<close> when \<open>turnovers > 0\<close>, and the assists themselves, not 0, when
  \<open>turnovers\<close> is 0.
\<close>

theorem assist_to_turnover_ratio:
  assumes "BasicStats bs" and "bs ''ast'' = Some assists" and "bs ''turnover'' = Some turnovers"
  shows "\<exists>adv. calculate_advanced_stats self bs = Inr adv \<and>
           adv ''ast_to_ratio'' = Some (if 0 < turnovers then assists / turnovers else assists)"
proof -
  from BasicStats_fields [OF assms(1)] assms(2,3)
  obtain fga fta pts mins where
    "bs ''fga'' = Some fga" and "bs ''fta'' = Some fta" and "bs ''pts'' = Some pts"
    and "bs ''min'' = Some mins"
    by auto
  with assms(2,3) show ?thesis
    by (simp add: calculate_advanced_stats_Some [of bs fga fta pts mins turnovers assists])
qed

theorem assist_to_turnover_ratio_witness:
  "BasicStats idle_example \<and>
   (\<exists>adv. calculate_advanced_stats (init ''key'' 2024) idle_example = Inr adv \<and>
      adv ''ast_to_ratio'' = Some 4)"
proof -
  have "idle_example ''ast'' = Some 4" and "idle_example ''turnover'' = Some 0"
    by (simp_all add: idle_example_def)
  from assist_to_turnover_ratio [OF BasicStats_idle_example this, of "init ''key'' 2024"]
    BasicStats_idle_example
  show ?thesis by simp
qed

text \<open>
  C4. For every BasicStats record, the call returns and \<open>usage_rate\<close> of the result is
  \<open>(fga + 0.44 * fta + turnovers) / minutes * 100\<close> when \<open>minutes > 0\<close>, and 0 when
  \<open>minutes\<close> is 0.
\<close>

theorem usage_rate_formula:
  assumes "BasicStats bs"
    and "bs ''fga'' = Some fga" and "bs ''fta'' = Some fta"
    and "bs ''turnover'' = Some turnovers" and "bs ''min'' = Some minutes"
  shows "\<exists>adv. calculate_advanced_stats self bs = Inr adv \<and>
           adv ''usage_rate'' =
             Some (if 0 < minutes then (fga + 0.44 * fta + turnovers) / minutes * 100 else 0)"
proof -
  from BasicStats_fields [OF assms(1)] assms(2-5)
  obtain pts ast where "bs ''pts'' = Some pts" and "bs ''ast'' = Some ast"
    by auto
  with assms(2-5) show ?thesis
    by (simp add: calculate_advanced_stats_Some [of bs fga fta pts minutes turnovers ast])
qed

theorem usage_rate_formula_witness:
  "BasicStats season_example \<and>
   (\<exists>adv. calculate_advanced_stats (init ''key'' 2024) season_example = Inr adv \<and>
      adv ''usage_rate'' = Some ((20 + 0.44 * 10 + 2) / 34.5 * 100))"
proof -
  have "season_example ''fga'' = Some 20" and "season_example ''fta'' = Some 10"
    and "season_example ''turnover'' = Some 2" and "season_example ''min'' = Some 34.5"
    by (simp_all add: season_example_def)
  from usage_rate_formula [OF BasicStats_season_example this, of "init ''key'' 2024"]
    BasicStats_season_example
  show ?thesis by simp
qed

text \<open>
  C5. For every BasicStats record, the call returns and \<open>pts_per_shot\<close> of the result is
  \<open>points / fga\<close> when \<open>fga > 0\<close>, and 0 when \<open>fga\<close> is 0.
\<close>

theorem points_per_shot_attempt:
  assumes "BasicStats bs" and "bs ''pts'' = Some points" and "bs ''fga'' = Some fga"
  shows "\<exists>adv. calculate_advanced_stats self bs = Inr adv \<and>
           adv ''pts_per_shot'' = Some (if 0 < fga then points / fga else 0)"
proof -
  from BasicStats_fields [OF assms(1)] assms(2,3)
  obtain fta mins tov ast where
    "bs ''fta'' = Some fta" and "bs ''min'' = Some mins"
    and "bs ''turnover'' = Some tov" and "bs ''ast'' = Some ast"
    by auto
  with assms(2,3) show ?thesis
    by (simp add: calculate_advanced_stats_Some [of bs fga fta points mins tov ast])
qed

theorem points_per_shot_attempt_witness:
  "BasicStats season_example \<and>
   (\<exists>adv. calculate_advanced_stats (init ''key'' 2024) season_example = Inr adv \<and>
      adv ''pts_per_shot'' = Some (30 / 20))"
proof -
  have "season_example ''pts'' = Some 30" and "season_example ''fga'' = Some 20"
    by (simp_all add: season_example_def)
  from points_per_shot_attempt [OF BasicStats_season_example this, of "init ''key'' 2024"]
    BasicStats_season_example
  show ?thesis by simp
qed

subsection \<open>Ranges and the fields read\<close>

text \<open>
  C6. For every well-formed record (every field present and not negative), the call
  returns, and \<open>ast_to_ratio\<close> and \<open>pts_per_shot\<close> of the result are not negative.
\<close>

theorem non_negative_ratios:
  assumes "well_formed bs"
  shows "\<exists>adv r p. calculate_advanced_stats self bs = Inr adv \<and>
           adv ''ast_to_ratio'' = Some r \<and> 0 \<le> r \<and>
           adv ''pts_per_shot'' = Some p \<and> 0 \<le> p"
proof -
  from well_formed_fields [OF assms]
  obtain fga fta pts mins tov ast where f:
    "bs ''fga'' = Some fga" "bs ''fta'' = Some fta" "bs ''pts'' = Some pts"
    "bs ''min'' = Some mins" "bs ''turnover'' = Some tov" "bs ''ast'' = Some ast"
    and nn: "0 \<le> fga" "0 \<le> pts" "0 \<le> tov" "0 \<le> ast"
    by blast
  from nn have "0 \<le> (if 0 < tov then ast / tov else ast)"
    and "0 \<le> (if 0 < fga then pts / fga else 0)"
    by simp_all
  then show ?thesis
    by (simp add: calculate_advanced_stats_Some [OF f])
qed

theorem non_negative_ratios_witness:
  "well_formed season_example \<and>
   (\<exists>adv r p. calculate_advanced_stats (init ''key'' 2024) season_example = Inr adv \<and>
      adv ''ast_to_ratio'' = Some r \<and> 0 \<le> r \<and> adv ''pts_per_shot'' = Some p \<and> 0 \<le> p)"
proof -
  have w: "well_formed season_example"
    by (simp add: well_formed_def basic_stats_fields_def season_example_def)
  from non_negative_ratios [OF w, of "init ''key'' 2024"] w show ?thesis
    by simp
qed

text \<open>
  C9. For a BasicStats record with \<open>pts = 30\<close>, \<open>fga = 20\<close> and \<open>fta = 10\<close>, the call
  returns \<open>ts_pct = 30 / (2 * (20 + 4.4)) * 100\<close>, which is 61.48 to two decimals.
\<close>

theorem true_shooting_example:
  assumes "BasicStats bs"
    and "bs ''pts'' = Some 30" and "bs ''fga'' = Some 20" and "bs ''fta'' = Some 10"
  shows "\<exists>adv. calculate_advanced_stats self bs = Inr adv \<and>
           adv ''ts_pct'' = Some (30 / (2 * (20 + 4.4)) * 100) \<and>
           (\<exists>v. adv ''ts_pct'' = Some v \<and> \<bar>v - 61.48\<bar> < 0.005)"
proof -
  from BasicStats_fields [OF assms(1)] assms(2-4)
  obtain mins tov ast where f:
    "bs ''fga'' = Some 20" "bs ''fta'' = Some 10" "bs ''pts'' = Some 30"
    "bs ''min'' = Some mins" "bs ''turnover'' = Some tov" "bs ''ast'' = Some ast"
    by auto
  let ?adv = "Map.empty
    (''ts_pct'' \<mapsto>
       (if (0::real) < 20 \<and> (0::real) < 10 then (30::real) / (2 * (20 + 0.44 * 10)) * 100 else 0),
     ''usage_rate'' \<mapsto> (if 0 < mins then (20 + 0.44 * 10 + tov) / mins * 100 else 0),
     ''ast_to_ratio'' \<mapsto> (if 0 < tov then ast / tov else ast),
     ''pts_per_shot'' \<mapsto> (if (0::real) < 20 then 30 / 20 else 0))"
  have r: "calculate_advanced_stats self bs = Inr ?adv"
    by (rule calculate_advanced_stats_Some [OF f])
  have v: "?adv ''ts_pct'' = Some (30 / (2 * (20 + 4.4)) * 100)"
    by simp
  from r v ts_example_value(2) show ?thesis
    by blast
qed

theorem true_shooting_example_witness:
  "BasicStats season_example \<and>
   (\<exists>adv. calculate_advanced_stats (init ''key'' 2024) season_example = Inr adv \<and>
      adv ''ts_pct'' = Some (30 / (2 * (20 + 4.4)) * 100) \<and>
      (\<exists>v. adv ''ts_pct'' = Some v \<and> \<bar>v - 61.48\<bar> < 0.005))"
proof -
  have "season_example ''pts'' = Some 30" and "season_example ''fga'' = Some 20"
    and "season_example ''fta'' = Some 10"
    by (simp_all add: season_example_def)
  from true_shooting_example [OF BasicStats_season_example this, of "init ''key'' 2024"]
    BasicStats_season_example
  show ?thesis by blast
qed

text \<open>
  C10. The call reads the six keys \<open>fga\<close>, \<open>fta\<close>, \<open>pts\<close>, \<open>min\<close>, \<open>turnover\<close> and
  \<open>ast\<close> only: dropping every other key from the record changes nothing. For every record
  that holds these six, whether or not it holds any other field, the call returns a
  dictionary with exactly the four derived metrics, each with the value its formula and
  guard give.
\<close>

theorem reads_six_fields_only:
  "calculate_advanced_stats self (bs |` set read_fields) = calculate_advanced_stats self bs \<and>
   (bs ''fga'' = Some fga \<and> bs ''fta'' = Some fta \<and> bs ''pts'' = Some pts \<and>
    bs ''min'' = Some mins \<and> bs ''turnover'' = Some tov \<and> bs ''ast'' = Some ast \<longrightarrow>
      (\<exists>adv. calculate_advanced_stats self bs = Inr adv \<and>
         dom adv = {''ts_pct'', ''usage_rate'', ''ast_to_ratio'', ''pts_per_shot''} \<and>
         adv ''ts_pct'' =
           Some (if 0 < fga \<and> 0 < fta then pts / (2 * (fga + 0.44 * fta)) * 100 else 0) \<and>
         adv ''usage_rate'' =
           Some (if 0 < mins then (fga + 0.44 * fta + tov) / mins * 100 else 0) \<and>
         adv ''ast_to_ratio'' = Some (if 0 < tov then ast / tov else ast) \<and>
         adv ''pts_per_shot'' = Some (if 0 < fga then pts / fga else 0)))"
proof
  show "calculate_advanced_stats self (bs |` set read_fields) = calculate_advanced_stats self bs"
    by (simp add: calculate_advanced_stats_def calculate_body_restrict)
next
  let ?adv = "Map.empty
    (''ts_pct'' \<mapsto> (if 0 < fga \<and> 0 < fta then pts / (2 * (fga + 0.44 * fta)) * 100 else 0),
     ''usage_rate'' \<mapsto> (if 0 < mins then (fga + 0.44 * fta + tov) / mins * 100 else 0),
     ''ast_to_ratio'' \<mapsto> (if 0 < tov then ast / tov else ast),
     ''pts_per_shot'' \<mapsto> (if 0 < fga then pts / fga else 0))"
  show "bs ''fga'' = Some fga \<and> bs ''fta'' = Some fta \<and> bs ''pts'' = Some pts \<and>
    bs ''min'' = Some mins \<and> bs ''turnover'' = Some tov \<and> bs ''ast'' = Some ast \<longrightarrow>
      (\<exists>adv. calculate_advanced_stats self bs = Inr adv \<and>
         dom adv = {''ts_pct'', ''usage_rate'', ''ast_to_ratio'', ''pts_per_shot''} \<and>
         adv ''ts_pct'' =
           Some (if 0 < fga \<and> 0 < fta then pts / (2 * (fga + 0.44 * fta)) * 100 else 0) \<and>
         adv ''usage_rate'' =
           Some (if 0 < mins then (fga + 0.44 * fta + tov) / mins * 100 else 0) \<and>
         adv ''ast_to_ratio'' = Some (if 0 < tov then ast / tov else ast) \<and>
         adv ''pts_per_shot'' = Some (if 0 < fga then pts / fga else 0))"
  proof
    assume f: "bs ''fga'' = Some fga \<and> bs ''fta'' = Some fta \<and> bs ''pts'' = Some pts \<and>
      bs ''min'' = Some mins \<and> bs ''turnover'' = Some tov \<and> bs ''ast'' = Some ast"
    then have r: "calculate_advanced_stats self bs = Inr ?adv"
      by (simp add: calculate_advanced_stats_Some [of bs fga fta pts mins tov ast])
    have "dom ?adv = {''ts_pct'', ''usage_rate'', ''ast_to_ratio'', ''pts_per_shot''}"
      by auto
    moreover have "?adv ''ts_pct'' =
        Some (if 0 < fga \<and> 0 < fta then pts / (2 * (fga + 0.44 * fta)) * 100 else 0)"
      and "?adv ''usage_rate'' =
        Some (if 0 < mins then (fga + 0.44 * fta + tov) / mins * 100 else 0)"
      and "?adv ''ast_to_ratio'' = Some (if 0 < tov then ast / tov else ast)"
      and "?adv ''pts_per_shot'' = Some (if 0 < fga then pts / fga else 0)"
      by simp_all
    ultimately show "\<exists>adv. calculate_advanced_stats self bs = Inr adv \<and>
         dom adv = {''ts_pct'', ''usage_rate'', ''ast_to_ratio'', ''pts_per_shot''} \<and>
         adv ''ts_pct'' =
           Some (if 0 < fga \<and> 0 < fta then pts / (2 * (fga + 0.44 * fta)) * 100 else 0) \<and>
         adv ''usage_rate'' =
           Some (if 0 < mins then (fga + 0.44 * fta + tov) / mins * 100 else 0) \<and>
         adv ''ast_to_ratio'' = Some (if 0 < tov then ast / tov else ast) \<and>
         adv ''pts_per_shot'' = Some (if 0 < fga then pts / fga else 0)"
      using r by blast
  qed
qed

theorem reads_six_fields_only_witness:
  "minimal_example ''fga'' = Some 20 \<and> minimal_example ''fta'' = Some 10 \<and>
   minimal_example ''pts'' = Some 30 \<and> minimal_example ''min'' = Some 34.5 \<and>
   minimal_example ''turnover'' = Some 2 \<and> minimal_example ''ast'' = Some 5 \<and>
   minimal_example ''reb'' = None \<and>
   (\<exists>adv. calculate_advanced_stats (init ''key'' 2024) minimal_example = Inr adv \<and>
      dom adv = {''ts_pct'', ''usage_rate'', ''ast_to_ratio'', ''pts_per_shot''} \<and>
      adv ''ts_pct'' = Some (30 / (2 * (20 + 0.44 * 10)) * 100) \<and>
      adv ''usage_rate'' = Some ((20 + 0.44 * 10 + 2) / 34.5 * 100) \<and>
      adv ''ast_to_ratio'' = Some (5 / 2) \<and>
      adv ''pts_per_shot'' = Some (30 / 20))"
proof -
  have p: "minimal_example ''fga'' = Some 20 \<and> minimal_example ''fta'' = Some 10 \<and>
      minimal_example ''pts'' = Some 30 \<and> minimal_example ''min'' = Some 34.5 \<and>
      minimal_example ''turnover'' = Some 2 \<and> minimal_example ''ast'' = Some 5"
    by (simp add: minimal_example_def)
  have n: "minimal_example ''reb'' = None"
    by (simp add: minimal_example_def)
  from reads_six_fields_only [of "init ''key'' 2024" minimal_example 20 10 30 "34.5" 2 5] p
  have "\<exists>adv. calculate_advanced_stats (init ''key'' 2024) minimal_example = Inr adv \<and>
      dom adv = {''ts_pct'', ''usage_rate'', ''ast_to_ratio'', ''pts_per_shot''} \<and>
      adv ''ts_pct'' = Some (30 / (2 * (20 + 0.44 * 10)) * 100) \<and>
      adv ''usage_rate'' = Some ((20 + 0.44 * 10 + 2) / 34.5 * 100) \<and>
      adv ''ast_to_ratio'' = Some (5 / 2) \<and>
      adv ''pts_per_shot'' = Some (30 / 20)"
    by simp
  with p n show ?thesis by blast
qed

subsection \<open>Missing fields\<close>

text \<open>
  C1 fails as stated: from the record \<open>no_points_example\<close> the required field \<open>pts\<close> is
  absent, and the call returns a full result, because with \<open>fga = 0\<close> no block reads
  \<open>pts\<close>.
\<close>

theorem missing_points_counterexample:
  "no_points_example ''pts'' = None \<and>
   calculate_advanced_stats (init ''key'' 2024) no_points_example =
     Inr (Map.empty(''ts_pct'' \<mapsto> 0, ''usage_rate'' \<mapsto> 0,
                    ''ast_to_ratio'' \<mapsto> 4, ''pts_per_shot'' \<mapsto> 0))"
  by (simp add: no_points_example_def calculate_advanced_stats_def calculate_body_def
      ts_pct_def usage_rate_def ast_to_ratio_def pts_per_shot_def getitem_def)

text \<open>
  C1, amended. For every record from which a field that the computation reads on that
  record is absent (\<open>fga\<close>, \<open>min\<close>, \<open>turnover\<close> or \<open>ast\<close>; \<open>fta\<close> when \<open>fga > 0\<close> or
  \<open>min > 0\<close>; \<open>pts\<close> when \<open>fga > 0\<close>), the call raises an \<open>Exception\<close> whose message
  \<open>Missing required statistics: 'k'\<close> names an absent field \<open>k\<close> of the six, and returns
  no result.
\<close>

theorem missing_field_error:
  assumes "bs ''fga'' = None \<or> bs ''min'' = None \<or> bs ''turnover'' = None \<or> bs ''ast'' = None \<or>
           (bs ''fta'' = None \<and> (positive bs ''fga'' \<or> positive bs ''min'')) \<or>
           (bs ''pts'' = None \<and> positive bs ''fga'')"
  shows "\<exists>k. k \<in> set read_fields \<and> bs k = None \<and>
           calculate_advanced_stats self bs =
             Inl (Exception (''Missing required statistics: '' @ str_KeyError k))"
  using assms
  unfolding calculate_advanced_stats_def calculate_body_def ts_pct_def usage_rate_def
    ast_to_ratio_def pts_per_shot_def getitem_def positive_def read_fields_def
  by (auto split: option.splits)

theorem missing_field_error_witness:
  "scorer_no_points_example ''pts'' = None \<and> positive scorer_no_points_example ''fga'' \<and>
   (\<exists>k. k \<in> set read_fields \<and> scorer_no_points_example k = None \<and>
      calculate_advanced_stats (init ''key'' 2024) scorer_no_points_example =
        Inl (Exception (''Missing required statistics: '' @ str_KeyError k)))"
proof -
  have h: "scorer_no_points_example ''pts'' = None" "positive scorer_no_points_example ''fga''"
    by (simp_all add: scorer_no_points_example_def positive_def)
  then have "scorer_no_points_example ''fga'' = None \<or> scorer_no_points_example ''min'' = None \<or>
      scorer_no_points_example ''turnover'' = None \<or> scorer_no_points_example ''ast'' = None \<or>
      (scorer_no_points_example ''fta'' = None \<and>
        (positive scorer_no_points_example ''fga'' \<or> positive scorer_no_points_example ''min'')) \<or>
      (scorer_no_points_example ''pts'' = None \<and> positive scorer_no_points_example ''fga'')"
    by blast
  from missing_field_error [OF this, of "init ''key'' 2024"] h show ?thesis
    by blast
qed

subsection \<open>Failures of the player search\<close>

text \<open>
  C8 fails as stated: on HTTP 401, on HTTP 429 and on a network failure the call raises
  an exception of one and the same class, \<open>Exception\<close>; a caller that selects on the class
  cannot tell the three apart.
\<close>

theorem search_player_one_class_counterexample:
  "raised_class (search_player
      (answers (Response \<lparr>status_code = 401, json = Map.empty\<rparr> :: string list http_outcome))
      (init ''key'' 2024) ''James'') = Some ''Exception'' \<and>
   raised_class (search_player
      (answers (Response \<lparr>status_code = 429, json = Map.empty\<rparr> :: string list http_outcome))
      (init ''key'' 2024) ''James'') = Some ''Exception'' \<and>
   raised_class (search_player
      (answers (RequestException ''Connection refused'' :: string list http_outcome))
      (init ''key'' 2024) ''James'') = Some ''Exception''"
  by (simp add: raised_class_def search_player_def answers_def)

text \<open>
  C8, amended. In all three situations the call raises the generic \<open>Exception\<close>, and the
  three are told apart by the message alone:
  \<open>Invalid API key. Please check your API key.\<close> on HTTP 401,
  \<open>Rate limit exceeded. Please try again later.\<close> on HTTP 429, and
  \<open>API request failed: \<close> followed by the text of the failure on a network failure.
  The three outcomes are pairwise different.
\<close>

theorem search_player_error_messages:
  assumes "get_auth (base_url self @ ''/players'') [(''search'', player_name)] (headers self)
             = Response r_auth"
    and "status_code r_auth = 401"
    and "get_rate (base_url self @ ''/players'') [(''search'', player_name)] (headers self)
             = Response r_rate"
    and "status_code r_rate = 429"
    and "get_net (base_url self @ ''/players'') [(''search'', player_name)] (headers self)
             = RequestException e"
  shows "search_player get_auth self player_name =
           Inl (Exception ''Invalid API key. Please check your API key.'') \<and>
         search_player get_rate self player_name =
           Inl (Exception ''Rate limit exceeded. Please try again later.'') \<and>
         search_player get_net self player_name =
           Inl (Exception (''API request failed: '' @ e)) \<and>
         search_player get_auth self player_name \<noteq> search_player get_rate self player_name \<and>
         search_player get_auth self player_name \<noteq> search_player get_net self player_name \<and>
         search_player get_rate self player_name \<noteq> search_player get_net self player_name"
  using assms by (simp add: search_player_def)

theorem search_player_error_messages_witness:
  "search_player
      (answers (Response \<lparr>status_code = 401, json = Map.empty\<rparr> :: string list http_outcome))
      (init ''key'' 2024) ''James'' =
     Inl (Exception ''Invalid API key. Please check your API key.'') \<and>
   search_player
      (answers (Response \<lparr>status_code = 429, json = Map.empty\<rparr> :: string list http_outcome))
      (init ''key'' 2024) ''James'' =
     Inl (Exception ''Rate limit exceeded. Please try again later.'') \<and>
   search_player
      (answers (RequestException ''Connection refused'' :: string list http_outcome))
      (init ''key'' 2024) ''James'' =
     Inl (Exception ''API request failed: Connection refused'')"
proof -
  let ?a = "init ''key'' 2024"
  let ?r1 = "\<lparr>status_code = 401, json = Map.empty\<rparr> :: string list response"
  let ?r2 = "\<lparr>status_code = 429, json = Map.empty\<rparr> :: string list response"
  have 1: "answers (Response ?r1) (base_url ?a @ ''/players'') [(''search'', ''James'')] (headers ?a)
             = Response ?r1"
    by (simp add: answers_def)
  have 2: "answers (Response ?r2) (base_url ?a @ ''/players'') [(''search'', ''James'')] (headers ?a)
             = Response ?r2"
    by (simp add: answers_def)
  have 3: "answers (RequestException ''Connection refused'' :: string list http_outcome)
             (base_url ?a @ ''/players'') [(''search'', ''James'')] (headers ?a)
             = RequestException ''Connection refused''"
    by (simp add: answers_def)
  have s1: "status_code ?r1 = 401" and s2: "status_code ?r2 = 429"
    by simp_all
  from search_player_error_messages
    [of "answers (Response ?r1)" ?a "''James''" ?r1 "answers (Response ?r2)" ?r2
        "answers (RequestException ''Connection refused'')" "''Connection refused''",
     OF 1 s1 2 s2 3]
  show ?thesis
    by simp
qed

text \<open>The two other branches, evaluated: any other status, and a successful search.\<close>

lemma search_player_other_status:
  "search_player
      (answers (Response \<lparr>status_code = 503, json = Map.empty\<rparr> :: string list http_outcome))
      (init ''key'' 2024) ''James'' = Inl (Exception ''API request failed with status code 503'')"
  by (simp add: search_player_def answers_def str_int_def)

lemma search_player_found:
  "search_player
      (answers (Response \<lparr>status_code = 200, json = Map.empty(''data'' \<mapsto> [''LeBron James''])\<rparr> :: string list http_outcome))
      (init ''key'' 2024) ''James'' = Inr [''LeBron James'']"
  by (simp add: search_player_def answers_def getitem_def)

subsection \<open>Effects of a call\<close>

text \<open>While the method runs, the state is the one it started in plus the new dictionary.\<close>

lemma deref_extended:
  "a < length (dicts s) \<Longrightarrow> deref (s\<lparr>dicts := dicts s @ [m]\<rparr>) a = deref s a"
  by (simp add: deref_def nth_append)

lemma deref_new:
  "deref (s\<lparr>dicts := dicts s @ [m]\<rparr>) (length (dicts s)) = m"
  by (simp add: deref_def)

lemma setitem_new:
  "setitem (length (dicts s)) k v (s\<lparr>dicts := dicts s @ [m]\<rparr>) = s\<lparr>dicts := dicts s @ [m(k \<mapsto> v)]\<rparr>"
  by (simp add: setitem_def deref_def)

lemma assign_block_new:
  assumes "bs < length (dicts s)"
  shows "assign_block (length (dicts s)) k block bs (s\<lparr>dicts := dicts s @ [m]\<rparr>) =
           (case block (deref s bs) of
              Inl e \<Rightarrow> (Inl e, s\<lparr>dicts := dicts s @ [m]\<rparr>)
            | Inr v \<Rightarrow> (Inr (), s\<lparr>dicts := dicts s @ [m(k \<mapsto> v)]\<rparr>))"
  by (simp add: assign_block_def deref_extended [OF assms] setitem_new split: sum.splits)

text \<open>
  The call computes what the function of the record computes, and the state after it is the
  state before it plus one dictionary.
\<close>

lemma calculate_advanced_stats_call_effect:
  assumes "bs < length (dicts s)"
  shows "\<exists>m. snd (calculate_advanced_stats_call bs s) = s\<lparr>dicts := dicts s @ [m]\<rparr> \<and>
           outcome (calculate_advanced_stats_call bs s) =
             calculate_advanced_stats (self_obj s) (deref s bs)"
proof -
  let ?d = "deref s bs"
  show ?thesis
  proof (cases "ts_pct ?d")
    case (Inl e)
    then show ?thesis
      by (cases e)
        (auto simp: calculate_advanced_stats_call_def new_dict_def assign_block_new [OF assms]
          outcome_def calculate_advanced_stats_def calculate_body_def)
  next
    case ts: (Inr v1)
    show ?thesis
    proof (cases "usage_rate ?d")
      case (Inl e)
      with ts show ?thesis
        by (cases e)
          (auto simp: calculate_advanced_stats_call_def new_dict_def assign_block_new [OF assms]
            outcome_def calculate_advanced_stats_def calculate_body_def)
    next
      case ur: (Inr v2)
      show ?thesis
      proof (cases "ast_to_ratio ?d")
        case (Inl e)
        with ts ur show ?thesis
          by (cases e)
            (auto simp: calculate_advanced_stats_call_def new_dict_def
              assign_block_new [OF assms] outcome_def calculate_advanced_stats_def
              calculate_body_def)
      next
        case atr: (Inr v3)
        show ?thesis
        proof (cases "pts_per_shot ?d")
          case (Inl e)
          with ts ur atr show ?thesis
            by (cases e)
              (auto simp: calculate_advanced_stats_call_def new_dict_def
                assign_block_new [OF assms] outcome_def calculate_advanced_stats_def
                calculate_body_def)
        next
          case (Inr v4)
          with ts ur atr show ?thesis
            by (auto simp: calculate_advanced_stats_call_def new_dict_def
                assign_block_new [OF assms] outcome_def calculate_advanced_stats_def
                calculate_body_def deref_new)
        qed
      qed
    qed
  qed
qed

text \<open>
  C7. A call is deterministic and stateless. Its outcome (the exception, or the contents of
  the dictionary returned) is that of the function of the record, so two calls on records
  of equal contents give equal outcomes, in whatever state and on whatever analyzer object
  they run. A call changes neither the analyzer object nor any dictionary alive before it,
  the argument included: it only adds the dictionary it returns. So a second call, run in
  the state the first one left, gives the outcome of the first.
\<close>

theorem calculate_advanced_stats_stateless:
  assumes "bs < length (dicts s)" and "bs' < length (dicts t)" and "deref t bs' = deref s bs"
  shows "outcome (calculate_advanced_stats_call bs' t) = outcome (calculate_advanced_stats_call bs s) \<and>
         outcome (calculate_advanced_stats_call bs s) =
           calculate_advanced_stats (self_obj s) (deref s bs) \<and>
         self_obj (snd (calculate_advanced_stats_call bs s)) = self_obj s \<and>
         take (length (dicts s)) (dicts (snd (calculate_advanced_stats_call bs s))) = dicts s \<and>
         length (dicts (snd (calculate_advanced_stats_call bs s))) = Suc (length (dicts s)) \<and>
         outcome (calculate_advanced_stats_call bs (snd (calculate_advanced_stats_call bs s))) =
           outcome (calculate_advanced_stats_call bs s)"
proof -
  from calculate_advanced_stats_call_effect [OF assms(1)]
  obtain m where after: "snd (calculate_advanced_stats_call bs s) = s\<lparr>dicts := dicts s @ [m]\<rparr>"
    and out: "outcome (calculate_advanced_stats_call bs s) =
                calculate_advanced_stats (self_obj s) (deref s bs)"
    by blast
  from calculate_advanced_stats_call_effect [OF assms(2)]
  have out': "outcome (calculate_advanced_stats_call bs' t) =
                calculate_advanced_stats (self_obj t) (deref t bs')"
    by blast
  have indep: "calculate_advanced_stats a d = calculate_advanced_stats b d" for a b d
    by (simp add: calculate_advanced_stats_def)
  let ?s' = "s\<lparr>dicts := dicts s @ [m]\<rparr>"
  have live: "bs < length (dicts ?s')"
    using assms(1) by simp
  from calculate_advanced_stats_call_effect [OF live]
  have "outcome (calculate_advanced_stats_call bs ?s') =
          calculate_advanced_stats (self_obj ?s') (deref ?s' bs)"
    by blast
  then have again: "outcome (calculate_advanced_stats_call bs ?s') =
          calculate_advanced_stats (self_obj s) (deref s bs)"
    by (simp add: deref_extended [OF assms(1)])
  have 1: "outcome (calculate_advanced_stats_call bs' t) = outcome (calculate_advanced_stats_call bs s)"
    using out out' assms(3) indep [of "self_obj t" "deref s bs" "self_obj s"] by simp
  show ?thesis
    using 1 out again by (simp add: after)
qed

theorem calculate_advanced_stats_stateless_witness:
  "(1::nat) < length (dicts second_state) \<and> (0::nat) < length (dicts first_state) \<and>
   deref second_state 1 = deref first_state 0 \<and>
   self_obj second_state \<noteq> self_obj first_state \<and>
   outcome (calculate_advanced_stats_call 1 second_state) =
     outcome (calculate_advanced_stats_call 0 first_state) \<and>
   dicts (snd (calculate_advanced_stats_call 0 first_state)) ! 0 = season_example"
proof -
  have h: "(0::nat) < length (dicts first_state)" "(1::nat) < length (dicts second_state)"
    "deref second_state 1 = deref first_state 0"
    by (simp_all add: first_state_def second_state_def deref_def)
  have d: "self_obj second_state \<noteq> self_obj first_state"
    by (simp add: first_state_def second_state_def init_def)
  from calculate_advanced_stats_stateless [OF h]
  have "outcome (calculate_advanced_stats_call 1 second_state) =
          outcome (calculate_advanced_stats_call 0 first_state)"
    and "take (length (dicts first_state)) (dicts (snd (calculate_advanced_stats_call 0 first_state)))
          = dicts first_state"
    by blast+
  then have "dicts (snd (calculate_advanced_stats_call 0 first_state)) ! 0 = season_example"
    by (metis h(1) first_state_def nth_take nth_Cons_0 select_convs(2))
  with h d \<open>outcome (calculate_advanced_stats_call 1 second_state) =
          outcome (calculate_advanced_stats_call 0 first_state)\<close>
  show ?thesis by blast
qed

end
